theory Spec2Isabelle
  imports Main "HOL-Library.Word"
begin

section \<open>Data model\<close>

text \<open>
  Embedding of \<^verbatim>\<open>python/zarrs_python/utils.py\<close>.

  An \<^verbatim>\<open>np.ndarray\<close> of positions is its shape together with its elements in row-major
  order, which is what \<^verbatim>\<open>ravel()\<close> returns. The elements are of the dtype \<^verbatim>\<open>np.intp\<close>, the
  dtype of the index arrays of a \<^verbatim>\<open>SelectorTuple\<close>: 64-bit two's complement integers,
  on which NumPy's arithmetic wraps around. \<open>sint\<close> reads the position of an element.
\<close>

datatype ndarray = NDArray (nd_shape: "nat list") (ravel: "64 word list")

text \<open>
  One axis of an index expression, told apart in the source by \<^verbatim>\<open>isinstance\<close>: a Python
  integer, a \<^verbatim>\<open>slice\<close> object (each of start, stop, step is \<^verbatim>\<open>None\<close> or an integer),
  \<^verbatim>\<open>Ellipsis\<close>, or an array of positions.
\<close>

datatype selector =
    Integer int
  | Slice (start: "int option") (stop: "int option") (step: "int option")
  | Ellipsis
  | IndexArray ndarray

text \<open>
  A \<^verbatim>\<open>SelectorTuple\<close> is a tuple of selectors, a bare slice, or a bare array.
\<close>

datatype selector_tuple =
    BareSlice "int option" "int option" "int option"
  | BareArray ndarray
  | Tuple "selector list"

text \<open>
  The exceptions the functions can leave with. \<^verbatim>\<open>DiscontiguousArrayError\<close> carries its
  argument: the array of differences or a message. \<^verbatim>\<open>IndexError\<close>, \<^verbatim>\<open>ValueError\<close> and
  \<^verbatim>\<open>TypeError\<close> are raised by the Python and NumPy operations the source calls.
\<close>

datatype payload = Diff "64 word list" | Message string

datatype error =
    DiscontiguousArrayError payload
  | CollapsedDimensionError
  | IndexError
  | ValueError
  | TypeError

record array_spec =
  shape :: "int list"
  dtype :: string
  fill_value :: "nat list"

section \<open>Python and NumPy operations used by the source\<close>

text \<open>\<^verbatim>\<open>xs[i]\<close>: a negative index counts from the end; out of range raises.\<close>

definition py_index :: "'a list \<Rightarrow> int \<Rightarrow> error + 'a" where
  "py_index xs i =
     (let n = int (length xs); j = (if i < 0 then i + n else i)
      in if 0 \<le> j \<and> j < n then Inr (xs ! nat j) else Inl IndexError)"

text \<open>The clamping of one bound of \<^verbatim>\<open>xs[a:b]\<close> on a sequence of length \<open>n\<close>.\<close>

definition py_bound :: "int \<Rightarrow> int \<Rightarrow> int" where
  "py_bound n i = (if i < 0 then max 0 (i + n) else min i n)"

text \<open>\<^verbatim>\<open>xs[a:b]\<close> and \<^verbatim>\<open>xs[a:]\<close>: never raise.\<close>

definition py_slice :: "'a list \<Rightarrow> int \<Rightarrow> int \<Rightarrow> 'a list" where
  "py_slice xs a b =
     (let n = int (length xs); lo = py_bound n a; hi = py_bound n b
      in take (nat (hi - lo)) (drop (nat lo) xs))"

definition py_slice_from :: "'a list \<Rightarrow> int \<Rightarrow> 'a list" where
  "py_slice_from xs a = drop (nat (py_bound (int (length xs)) a)) xs"

text \<open>
  \<^verbatim>\<open>slice(start, stop, step).indices(length)\<close>: a negative length and a zero step
  raise \<^verbatim>\<open>ValueError\<close>; otherwise start and stop are clamped into the bounds that
  the sign of the step gives.
\<close>

definition clamp_bound :: "int \<Rightarrow> int \<Rightarrow> int \<Rightarrow> int \<Rightarrow> int" where
  "clamp_bound lower upper len i =
     (if i < 0 then max (i + len) lower else min i upper)"

definition indices :: "int option \<Rightarrow> int option \<Rightarrow> int option \<Rightarrow> int \<Rightarrow> error + (int \<times> int \<times> int)" where
  "indices a b s len =
     (if len < 0 then Inl ValueError
      else
        let st = (case s of None \<Rightarrow> 1 | Some v \<Rightarrow> v)
        in if st = 0 then Inl ValueError
           else
             let lower = (if st < 0 then - 1 else 0);
                 upper = (if st < 0 then len - 1 else len);
                 lo = (case a of None \<Rightarrow> (if st < 0 then upper else lower)
                       | Some v \<Rightarrow> clamp_bound lower upper len v);
                 hi = (case b of None \<Rightarrow> (if st < 0 then lower else upper)
                       | Some v \<Rightarrow> clamp_bound lower upper len v)
             in Inr (lo, hi, st))"

text \<open>
  \<^verbatim>\<open>np.diff\<close> on a one-dimensional array: the successive differences, computed in the
  dtype of the array and so modulo \<open>2^64\<close>.
\<close>

fun diff :: "64 word list \<Rightarrow> 64 word list" where
  "diff (x # y # zs) = (y - x) # diff (y # zs)"
| "diff _ = []"

text \<open>
  \<^verbatim>\<open>np.broadcast_shapes\<close>: shapes are aligned at their trailing edge; two sizes agree
  when they are equal or one of them is 1; anything else raises \<^verbatim>\<open>ValueError\<close>.
  \<open>broadcast_rev\<close> works on reversed shapes.
\<close>

fun broadcast_rev :: "nat list \<Rightarrow> nat list \<Rightarrow> error + nat list" where
  "broadcast_rev [] ys = Inr ys"
| "broadcast_rev (x # xs) [] = Inr (x # xs)"
| "broadcast_rev (x # xs) (y # ys) =
     (case broadcast_rev xs ys of
        Inl e \<Rightarrow> Inl e
      | Inr zs \<Rightarrow>
          if x = y \<or> y = 1 then Inr (x # zs)
          else if x = 1 then Inr (y # zs)
          else Inl ValueError)"

fun broadcast_acc :: "nat list \<Rightarrow> nat list list \<Rightarrow> error + nat list" where
  "broadcast_acc acc [] = Inr acc"
| "broadcast_acc acc (s # ss) =
     (case broadcast_rev acc (rev s) of
        Inl e \<Rightarrow> Inl e
      | Inr acc' \<Rightarrow> broadcast_acc acc' ss)"

definition broadcast_shapes :: "nat list list \<Rightarrow> error + nat list" where
  "broadcast_shapes shapes =
     (case broadcast_acc [] shapes of Inl e \<Rightarrow> Inl e | Inr r \<Rightarrow> Inr (rev r))"

text \<open>
  Iterating over an array: a 0-d array raises \<^verbatim>\<open>TypeError\<close>, a 1-d array yields its
  elements as integer scalars (for which \<^verbatim>\<open>is_integer\<close> holds and which \<^verbatim>\<open>int\<close> converts
  to their value), an array of more dimensions yields its sub-arrays along the first
  axis.
\<close>

definition iter_ndarray :: "ndarray \<Rightarrow> error + selector list" where
  "iter_ndarray a =
     (case nd_shape a of
        [] \<Rightarrow> Inl TypeError
      | [n] \<Rightarrow> Inr (map (\<lambda>w. Integer (sint w)) (take n (ravel a)))
      | n # rest \<Rightarrow>
          let m = prod_list rest
          in Inr (map (\<lambda>i. IndexArray (NDArray rest (take m (drop (i * m) (ravel a))))) [0..<n]))"

section \<open>Dispatch sizing\<close>

text \<open>
  \<^verbatim>\<open>get_max_threads\<close>: \<^verbatim>\<open>(os.cpu_count() or 1) + 4\<close>. \<^verbatim>\<open>os.cpu_count()\<close> is \<^verbatim>\<open>None\<close> or
  a count of processors and is the argument here; \<^verbatim>\<open>or\<close> replaces \<^verbatim>\<open>None\<close> and 0 by 1.
\<close>

definition get_max_threads :: "nat option \<Rightarrow> nat" where
  "get_max_threads cpu_count =
     (case cpu_count of None \<Rightarrow> 1 | Some n \<Rightarrow> if n = 0 then 1 else n) + 4"

section \<open>Contiguity reducer\<close>

definition is_ndarray :: "selector \<Rightarrow> bool" where
  "is_ndarray s = (case s of IndexArray _ \<Rightarrow> True | _ \<Rightarrow> False)"

definition is_slice :: "selector \<Rightarrow> bool" where
  "is_slice s = (case s of Slice _ _ _ \<Rightarrow> True | _ \<Rightarrow> False)"

text \<open>
  The body of the loop of \<^verbatim>\<open>make_slice_selection\<close> for one \<^verbatim>\<open>dim_selection\<close>: what is
  appended to \<^verbatim>\<open>ls\<close>, or the exception. For an array of one element the bounds are
  Python integers, \<^verbatim>\<open>int(dim_selection.item())\<close> and that plus 1. Otherwise the stop is
  \<^verbatim>\<open>dim_selection[-1] + 1\<close>, an addition of the dtype, which wraps around at its
  maximum. \<^verbatim>\<open>dim_selection[0]\<close> on an empty array raises \<^verbatim>\<open>IndexError\<close>, after the test
  on the differences.
\<close>

fun slice_of_dim :: "selector \<Rightarrow> error + selector" where
  "slice_of_dim (Integer i) = Inr (Slice (Some i) (Some (i + 1)) (Some 1))"
| "slice_of_dim (IndexArray a) =
     (let d = ravel a
      in if length d = 1 then Inr (Slice (Some (sint (hd d))) (Some (sint (hd d) + 1)) (Some 1))
         else
           let df = diff d
           in if list_ex (\<lambda>x. x \<noteq> 1) df \<and> list_ex (\<lambda>x. x \<noteq> 0) df
              then Inl (DiscontiguousArrayError (Diff df))
              else if d = [] then Inl IndexError
              else Inr (Slice (Some (sint (hd d))) (Some (sint (last d + 1))) (Some 1)))"
| "slice_of_dim s = Inr s"

fun make_slices :: "selector list \<Rightarrow> error + selector list" where
  "make_slices [] = Inr []"
| "make_slices (s # ss) =
     (case slice_of_dim s of
        Inl e \<Rightarrow> Inl e
      | Inr x \<Rightarrow>
          (case make_slices ss of
             Inl e \<Rightarrow> Inl e
           | Inr xs \<Rightarrow> Inr (x # xs)))"

text \<open>
  \<^verbatim>\<open>make_slice_selection\<close>: the loop, then the check that compares the number of arrays
  in \<^verbatim>\<open>selection\<close>, the number of slices in \<^verbatim>\<open>selection\<close> and its length
  (\<^verbatim>\<open>a == b == c\<close> is \<^verbatim>\<open>a == b and b == c\<close>).
\<close>

definition make_slice_selection :: "selector list \<Rightarrow> error + selector list" where
  "make_slice_selection selection =
     (case make_slices selection of
        Inl e \<Rightarrow> Inl e
      | Inr ls \<Rightarrow>
          if length (filter is_ndarray selection) = length (filter is_slice selection)
             \<and> length (filter is_slice selection) = length selection
          then Inl (DiscontiguousArrayError
                 (Message ''Vindexing with only contiguous numpy arrays is not supported''))
          else Inr ls)"

definition slices_or_reduce :: "selector list \<Rightarrow> error + selector list" where
  "slices_or_reduce ss = (if list_all is_slice ss then Inr ss else make_slice_selection ss)"

fun selector_tuple_to_slice_selection :: "selector_tuple \<Rightarrow> error + selector list" where
  "selector_tuple_to_slice_selection (BareSlice a b s) = Inr [Slice a b s]"
| "selector_tuple_to_slice_selection (Tuple ss) = slices_or_reduce ss"
| "selector_tuple_to_slice_selection (BareArray a) =
     (case iter_ndarray a of Inl e \<Rightarrow> Inl e | Inr ss \<Rightarrow> slices_or_reduce ss)"

section \<open>Shape resolver\<close>

fun advanced_index_shapes :: "selector list \<Rightarrow> nat list list" where
  "advanced_index_shapes [] = []"
| "advanced_index_shapes (IndexArray a # ss) = nd_shape a # advanced_index_shapes ss"
| "advanced_index_shapes (_ # ss) = advanced_index_shapes ss"

text \<open>
  The test \<^verbatim>\<open>idx.step is not None and idx.step > 1\<close> of \<^verbatim>\<open>resulting_shape_from_index\<close>.
\<close>

definition step_gt_1 :: "int option \<Rightarrow> bool" where
  "step_gt_1 s = (case s of None \<Rightarrow> False | Some v \<Rightarrow> v > 1)"

text \<open>
  One round of the loop over \<^verbatim>\<open>index_tuple\<close>. The state is \<^verbatim>\<open>result_shape\<close> and
  \<^verbatim>\<open>basic_shape_index\<close>; \<open>n\<close> is \<^verbatim>\<open>len(index_tuple)\<close>. An array matches none of the
  three branches and leaves the state as it is.
\<close>

fun index_step :: "int list \<Rightarrow> int \<Rightarrow> selector \<Rightarrow> int list \<times> int \<Rightarrow> error + (int list \<times> int)" where
  "index_step array_shape n (Integer i) (result_shape, basic_shape_index) =
     Inr (result_shape, basic_shape_index + 1)"
| "index_step array_shape n (Slice a b s) (result_shape, basic_shape_index) =
     (if step_gt_1 s
      then Inl (DiscontiguousArrayError (Message ''Step size greater than 1 is not supported''))
      else
        (case py_index array_shape basic_shape_index of
           Inl e \<Rightarrow> Inl e
         | Inr len \<Rightarrow>
             (case indices a b s len of
                Inl e \<Rightarrow> Inl e
              | Inr (lo, hi, _) \<Rightarrow> Inr (result_shape @ [hi - lo], basic_shape_index + 1))))"
| "index_step array_shape n Ellipsis (result_shape, basic_shape_index) =
     (let num_to_fill = int (length array_shape) - n + 1
      in Inr (result_shape @ py_slice array_shape basic_shape_index (basic_shape_index + num_to_fill),
              basic_shape_index + num_to_fill))"
| "index_step array_shape n (IndexArray a) (result_shape, basic_shape_index) =
     Inr (result_shape, basic_shape_index)"

fun index_loop :: "int list \<Rightarrow> int \<Rightarrow> selector list \<Rightarrow> int list \<times> int \<Rightarrow> error + (int list \<times> int)" where
  "index_loop array_shape n [] st = Inr st"
| "index_loop array_shape n (idx # rest) st =
     (case index_step array_shape n idx st of
        Inl e \<Rightarrow> Inl e
      | Inr st' \<Rightarrow> index_loop array_shape n rest st')"

text \<open>
  The start of \<^verbatim>\<open>resulting_shape_from_index\<close>: with at least one array in the tuple, the
  broadcast shape opens the result and the cursor starts at the number of arrays.
\<close>

definition broadcast_start :: "selector list \<Rightarrow> error + (int list \<times> int)" where
  "broadcast_start index_tuple =
     (let shapes = advanced_index_shapes index_tuple
      in if shapes = [] then Inr ([], 0)
         else
           (case broadcast_shapes shapes of
              Inl e \<Rightarrow> Inl e
            | Inr broadcasted_shape \<Rightarrow> Inr (map int broadcasted_shape, int (length shapes))))"

text \<open>The last line: the sizes whose position is not in \<^verbatim>\<open>drop_axes\<close>.\<close>

definition drop_axes_filter :: "int list \<Rightarrow> int list \<Rightarrow> int list" where
  "drop_axes_filter drop_axes result_shape =
     map snd (filter (\<lambda>(idx, size). int idx \<notin> set drop_axes) (enumerate 0 result_shape))"

definition resulting_shape_from_index :: "int list \<Rightarrow> selector list \<Rightarrow> int list \<Rightarrow> bool \<Rightarrow> error + int list" where
  "resulting_shape_from_index array_shape index_tuple drop_axes pad =
     (case broadcast_start index_tuple of
        Inl e \<Rightarrow> Inl e
      | Inr st \<Rightarrow>
          (case index_loop array_shape (int (length index_tuple)) index_tuple st of
             Inl e \<Rightarrow> Inl e
           | Inr (result_shape, basic_shape_index) \<Rightarrow>
               Inr (drop_axes_filter drop_axes
                      (if basic_shape_index < int (length array_shape) \<and> pad
                       then result_shape @ py_slice_from array_shape basic_shape_index
                       else result_shape))))"

fun get_shape_for_selector :: "selector_tuple \<Rightarrow> int list \<Rightarrow> int list \<Rightarrow> bool \<Rightarrow> error + int list" where
  "get_shape_for_selector (BareSlice a b s) shp drop_axes pad =
     resulting_shape_from_index shp [Slice a b s] drop_axes pad"
| "get_shape_for_selector (BareArray a) shp drop_axes pad =
     resulting_shape_from_index shp [IndexArray a] drop_axes pad"
| "get_shape_for_selector (Tuple ss) shp drop_axes pad =
     resulting_shape_from_index shp ss drop_axes pad"

section \<open>Chunk batch builder\<close>

text \<open>
  A byte getter is used through \<^verbatim>\<open>str\<close> only and is that string here. A batch item is
  \<^verbatim>\<open>(byte_getter, chunk_spec, chunk_selection, out_selection)\<close>.
\<close>

type_synonym chunk_descriptor = "string \<times> int list \<times> string \<times> nat list"

type_synonym batch_item = "string \<times> array_spec \<times> selector_tuple \<times> selector_tuple"

type_synonym batch_entry = "chunk_descriptor \<times> selector list \<times> selector list"

definition convert_chunk_to_primitive :: "string \<Rightarrow> array_spec \<Rightarrow> chunk_descriptor" where
  "convert_chunk_to_primitive byte_getter chunk_spec =
     (byte_getter, shape chunk_spec, dtype chunk_spec, fill_value chunk_spec)"

text \<open>The first loop of \<^verbatim>\<open>make_chunk_info_for_rust_with_indices\<close>.\<close>

fun check_batch :: "batch_item list \<Rightarrow> int list \<Rightarrow> error + unit" where
  "check_batch [] drop_axes = Inr ()"
| "check_batch ((byte_getter, chunk_spec, chunk_selection, out_selection) # rest) drop_axes =
     (case get_shape_for_selector out_selection (shape chunk_spec) [] False of
        Inl e \<Rightarrow> Inl e
      | Inr shape_out_selection \<Rightarrow>
          (case get_shape_for_selector chunk_selection (shape chunk_spec) drop_axes True of
             Inl e \<Rightarrow> Inl e
           | Inr shape_chunk_selection \<Rightarrow>
               if length shape_chunk_selection \<noteq> length shape_out_selection
               then Inl CollapsedDimensionError
               else check_batch rest drop_axes))"

text \<open>
  The construction of the list. The second component is the trace of the descriptors that
  \<^verbatim>\<open>convert_chunk_to_primitive\<close> has produced when the construction ends or raises: in
  each tuple the descriptor is built first, then the two slice selections.
\<close>

fun build_entries :: "batch_item list \<Rightarrow> (error + batch_entry list) \<times> chunk_descriptor list" where
  "build_entries [] = (Inr [], [])"
| "build_entries ((byte_getter, chunk_spec, chunk_selection, out_selection) # rest) =
     (let d = convert_chunk_to_primitive byte_getter chunk_spec
      in case selector_tuple_to_slice_selection out_selection of
           Inl e \<Rightarrow> (Inl e, [d])
         | Inr out_slices \<Rightarrow>
             (case selector_tuple_to_slice_selection chunk_selection of
                Inl e \<Rightarrow> (Inl e, [d])
              | Inr chunk_slices \<Rightarrow>
                  (case build_entries rest of
                     (Inl e, ds) \<Rightarrow> (Inl e, d # ds)
                   | (Inr es, ds) \<Rightarrow> (Inr ((d, out_slices, chunk_slices) # es), d # ds))))"

definition make_chunk_info_for_rust_with_indices :: "batch_item list \<Rightarrow> int list \<Rightarrow> (error + batch_entry list) \<times> chunk_descriptor list" where
  "make_chunk_info_for_rust_with_indices batch_info drop_axes =
     (case check_batch batch_info drop_axes of
        Inl e \<Rightarrow> (Inl e, [])
      | Inr _ \<Rightarrow> build_entries batch_info)"

definition make_chunk_info_for_rust :: "batch_item list \<Rightarrow> chunk_descriptor list" where
  "make_chunk_info_for_rust batch_info =
     map (\<lambda>(byte_getter, chunk_spec, _, _). convert_chunk_to_primitive byte_getter chunk_spec) batch_info"

section \<open>Predicates of the statements\<close>

text \<open>A slice that the step test of \<^verbatim>\<open>resulting_shape_from_index\<close> rejects.\<close>

definition big_step :: "selector \<Rightarrow> bool" where
  "big_step x = (case x of Slice _ _ s \<Rightarrow> step_gt_1 s | _ \<Rightarrow> False)"

definition negative_step :: "selector \<Rightarrow> bool" where
  "negative_step x = (case x of Slice _ _ s \<Rightarrow> (case s of None \<Rightarrow> False | Some v \<Rightarrow> v < 0) | _ \<Rightarrow> False)"

definition is_ellipsis :: "selector \<Rightarrow> bool" where
  "is_ellipsis x = (case x of Ellipsis \<Rightarrow> True | _ \<Rightarrow> False)"

definition zero_step :: "selector \<Rightarrow> bool" where
  "zero_step x = (case x of Slice _ _ s \<Rightarrow> s = Some 0 | _ \<Rightarrow> False)"




text \<open>
  An index expression that is well formed for an array shape: the sizes of the shape are
  not negative, there is at most one \<^verbatim>\<open>Ellipsis\<close>, there are no more selectors than
  axes (the \<^verbatim>\<open>Ellipsis\<close> not counted), no slice has the step 0, and the shapes of the
  index arrays broadcast. On any other input Python or NumPy raises \<^verbatim>\<open>IndexError\<close> or
  \<^verbatim>\<open>ValueError\<close> for the expression itself.
\<close>

definition wf_index :: "int list \<Rightarrow> selector list \<Rightarrow> bool" where
  "wf_index sh sel =
     (list_all (\<lambda>d. 0 \<le> d) sh
      \<and> length (filter is_ellipsis sel) \<le> 1
      \<and> length sel \<le> length sh + length (filter is_ellipsis sel)
      \<and> \<not> list_ex zero_step sel
      \<and> \<not> isl (broadcast_shapes (advanced_index_shapes sel)))"

text \<open>
  The number of axes of the array that one selector consumes in the loop, \<open>f\<close> being the
  number that an \<^verbatim>\<open>Ellipsis\<close> fills.
\<close>

fun consumed :: "int \<Rightarrow> selector \<Rightarrow> int" where
  "consumed f (Integer i) = 1"
| "consumed f (Slice a b s) = 1"
| "consumed f Ellipsis = f"
| "consumed f (IndexArray a) = 0"

text \<open>
  For one batch item: both shapes of the first loop of
  \<^verbatim>\<open>make_chunk_info_for_rust_with_indices\<close> resolve; they resolve and differ in rank; they
  resolve and agree in rank.
\<close>

definition entry_resolves :: "int list \<Rightarrow> batch_item \<Rightarrow> bool" where
  "entry_resolves drop_axes item =
     (case item of (byte_getter, chunk_spec, chunk_selection, out_selection) \<Rightarrow>
        \<not> isl (get_shape_for_selector out_selection (shape chunk_spec) [] False)
        \<and> \<not> isl (get_shape_for_selector chunk_selection (shape chunk_spec) drop_axes True))"

definition rank_differs :: "int list \<Rightarrow> batch_item \<Rightarrow> bool" where
  "rank_differs drop_axes item =
     (case item of (byte_getter, chunk_spec, chunk_selection, out_selection) \<Rightarrow>
        (case get_shape_for_selector out_selection (shape chunk_spec) [] False of
           Inl e \<Rightarrow> False
         | Inr shape_out_selection \<Rightarrow>
             (case get_shape_for_selector chunk_selection (shape chunk_spec) drop_axes True of
                Inl e \<Rightarrow> False
              | Inr shape_chunk_selection \<Rightarrow>
                  length shape_chunk_selection \<noteq> length shape_out_selection)))"

definition entry_ok :: "int list \<Rightarrow> batch_item \<Rightarrow> bool" where
  "entry_ok drop_axes item = (entry_resolves drop_axes item \<and> \<not> rank_differs drop_axes item)"

section \<open>Reference semantics: the shape of a basic-indexing result\<close>






section \<open>Properties of the contiguity reducer\<close>




lemma make_slices_append:
  "make_slices (pre @ s # post) =
     (case make_slices pre of
        Inl e \<Rightarrow> Inl e
      | Inr xs \<Rightarrow>
          (case slice_of_dim s of
             Inl e \<Rightarrow> Inl e
           | Inr x \<Rightarrow>
               (case make_slices post of
                  Inl e \<Rightarrow> Inl e
                | Inr ys \<Rightarrow> Inr (xs @ x # ys))))"
  by (induction pre) (auto split: sum.splits)

lemma make_slices_length: "make_slices ss = Inr ls \<Longrightarrow> length ls = length ss"
  by (induction ss arbitrary: ls) (auto split: sum.splits)

lemma make_slices_nth:
  "make_slices (pre @ s # post) = Inr ls \<Longrightarrow> slice_of_dim s = Inr (ls ! length pre)"
  by (auto simp: make_slices_append nth_append dest: make_slices_length split: sum.splits)













text \<open>
  C1. The claim: a selection in which every axis is an array, such as \<open>([1,2], [3,4])\<close>,
  fails with \<^verbatim>\<open>DiscontiguousArrayError\<close>. The code returns the two unit-step slices: its
  final check counts the slices of \<^verbatim>\<open>selection\<close>, which has none, and so never fires.
\<close>

theorem vectorized_selection_is_accepted:
  "make_slice_selection [IndexArray (NDArray [2] [1, 2]), IndexArray (NDArray [2] [3, 4])]
     = Inr [Slice (Some 1) (Some 3) (Some 1), Slice (Some 3) (Some 5) (Some 1)]
   \<and> selector_tuple_to_slice_selection
       (Tuple [IndexArray (NDArray [2] [1, 2]), IndexArray (NDArray [2] [3, 4])])
     = Inr [Slice (Some 1) (Some 3) (Some 1), Slice (Some 3) (Some 5) (Some 1)]"
  by (simp add: make_slice_selection_def slices_or_reduce_def is_slice_def is_ndarray_def)







text \<open>
  C10. The empty tuple: every element of it is a slice, so
  \<^verbatim>\<open>selector_tuple_to_slice_selection\<close> returns the empty list and
  \<^verbatim>\<open>make_slice_selection\<close>, whose final check would raise on the empty selection, is
  not reached.
\<close>

theorem empty_tuple_passes_through:
  "selector_tuple_to_slice_selection (Tuple []) = Inr []
   \<and> list_all is_slice []
   \<and> make_slice_selection []
       = Inl (DiscontiguousArrayError
           (Message ''Vindexing with only contiguous numpy arrays is not supported''))"
  by (simp add: slices_or_reduce_def make_slice_selection_def)

section \<open>Properties of the dispatch sizing\<close>

text \<open>
  C8. \<^verbatim>\<open>get_max_threads\<close> is the processor count plus 4 for every positive count, 5 when
  the count is unavailable, and at least 5 in every case. It is a function of the count,
  hence the same for the same count.
\<close>

theorem get_max_threads_value:
  "get_max_threads (Some (Suc n)) = Suc n + 4
   \<and> get_max_threads None = 5
   \<and> 5 \<le> get_max_threads cpu_count"
  by (simp add: get_max_threads_def split: option.splits)

section \<open>Properties of the shape resolver\<close>

subsection \<open>The last line and \<open>drop_axes\<close>\<close>

lemma enumerate_filter_nths:
  "map snd (filter (\<lambda>(i, x). P i) (enumerate k xs))
     = map fst (filter (\<lambda>p. P (snd p)) (zip xs [k..<k + length xs]))"
proof (induction xs arbitrary: k)
  case Nil
  then show ?case by simp
next
  case (Cons a xs)
  have "k < k + Suc (length xs)"
    by simp
  then have "[k..<k + Suc (length xs)] = k # [Suc k..<Suc k + length xs]"
    by (simp only: upt_conv_Cons add_Suc add_Suc_right)
  then show ?case using Cons [of "Suc k"] by (simp del: upt_Suc)
qed

lemma drop_axes_filter_nths:
  "drop_axes_filter drop_axes r = nths r {i. int i \<notin> set drop_axes}"
  using enumerate_filter_nths [of "\<lambda>i. int i \<notin> set drop_axes" 0 r]
  by (simp add: drop_axes_filter_def nths_def)

lemma drop_axes_filter_Nil: "drop_axes_filter [] r = r"
  by (simp add: drop_axes_filter_def enumerate_eq_zip)

lemma resolver_drop:
  "resulting_shape_from_index sh sel drop_axes pad =
     (case resulting_shape_from_index sh sel [] pad of
        Inl e \<Rightarrow> Inl e
      | Inr r \<Rightarrow> Inr (drop_axes_filter drop_axes r))"
  by (simp add: resulting_shape_from_index_def drop_axes_filter_Nil split: sum.splits prod.splits)

lemma broadcast_rev_error: "broadcast_rev xs ys = Inl e \<Longrightarrow> e = ValueError"
  by (induction xs ys rule: broadcast_rev.induct) (auto split: sum.splits if_splits)

lemma broadcast_acc_error: "broadcast_acc acc ss = Inl e \<Longrightarrow> e = ValueError"
  by (induction ss arbitrary: acc) (auto split: sum.splits dest: broadcast_rev_error)

lemma broadcast_start_error: "broadcast_start sel = Inl e \<Longrightarrow> e = ValueError"
  by (auto simp: broadcast_start_def broadcast_shapes_def Let_def
           split: if_splits sum.splits dest: broadcast_acc_error)

lemma py_index_error: "py_index xs i = Inl e \<Longrightarrow> e = IndexError"
  by (auto simp: py_index_def Let_def split: if_splits)

lemma indices_error: "indices a b s n = Inl e \<Longrightarrow> e = ValueError"
  by (auto simp: indices_def Let_def split: if_splits)

lemma index_step_discontiguous:
  "index_step sh k x st = Inl (DiscontiguousArrayError m) \<Longrightarrow> big_step x"
  by (cases x; cases st)
     (auto simp: big_step_def Let_def split: if_splits sum.splits prod.splits
           dest: py_index_error indices_error)

lemma index_loop_discontiguous:
  "index_loop sh k sel st = Inl (DiscontiguousArrayError m) \<Longrightarrow> list_ex big_step sel"
  by (induction sel arbitrary: st) (auto split: sum.splits dest: index_step_discontiguous)

lemma index_step_big_step:
  "big_step x \<Longrightarrow> index_step sh k x st
     = Inl (DiscontiguousArrayError (Message ''Step size greater than 1 is not supported''))"
  by (cases x; cases st) (auto simp: big_step_def)

lemma index_loop_big_step_fails:
  "list_ex big_step sel \<Longrightarrow> \<exists>e. index_loop sh k sel st = Inl e"
  by (induction sel arbitrary: st) (auto split: sum.splits simp: index_step_big_step)

lemma resolver_discontiguous:
  "resulting_shape_from_index sh sel drop_axes pad = Inl (DiscontiguousArrayError m)
     \<Longrightarrow> list_ex big_step sel"
  by (auto simp: resulting_shape_from_index_def split: sum.splits prod.splits
           dest: broadcast_start_error index_loop_discontiguous)

lemma resolver_big_step_fails:
  "list_ex big_step sel \<Longrightarrow> \<exists>e. resulting_shape_from_index sh sel drop_axes pad = Inl e"
proof (cases "broadcast_start sel")
  case (Inl e)
  then show ?thesis by (simp add: resulting_shape_from_index_def)
next
  case (Inr st)
  assume "list_ex big_step sel"
  then obtain e where "index_loop sh (int (length sel)) sel st = Inl e"
    using index_loop_big_step_fails by blast
  with Inr show ?thesis by (simp add: resulting_shape_from_index_def)
qed


subsection \<open>Well-formed index expressions raise nothing but the step error\<close>

lemma consumed_nonneg: "(is_ellipsis z \<longrightarrow> 0 \<le> f) \<Longrightarrow> 0 \<le> consumed f z"
  by (cases z) (simp_all add: is_ellipsis_def)

lemma indices_ok:
  "0 \<le> n \<Longrightarrow> s \<noteq> Some 0 \<Longrightarrow> \<exists>lo hi st. indices a b s n = Inr (lo, hi, st)"
  by (auto simp: indices_def Let_def split: option.splits)

lemma py_index_ok:
  "0 \<le> c \<Longrightarrow> c < int (length xs) \<Longrightarrow> py_index xs c = Inr (xs ! nat c)"
  by (simp add: py_index_def Let_def)

lemma index_step_wf:
  assumes "list_all (\<lambda>d. 0 \<le> d) sh" "\<not> zero_step x" "0 \<le> c"
    and "c + consumed (int (length sh) - k + 1) x + w \<le> int (length sh)" "0 \<le> w"
    and "is_ellipsis x \<longrightarrow> 0 \<le> int (length sh) - k + 1"
  shows "(\<exists>res'. index_step sh k x (res, c) = Inr (res', c + consumed (int (length sh) - k + 1) x))
         \<or> index_step sh k x (res, c)
             = Inl (DiscontiguousArrayError (Message ''Step size greater than 1 is not supported''))"
proof (cases x)
  case (Slice a b s)
  show ?thesis
  proof (cases "step_gt_1 s")
    case True
    then show ?thesis using Slice by simp
  next
    case False
    have c: "c < int (length sh)" using assms(4,5) Slice by simp
    then have p: "py_index sh c = Inr (sh ! nat c)"
      using assms(3) by (simp add: py_index_ok)
    have "0 \<le> sh ! nat c"
      using assms(1,3) c by (simp add: list_all_length)
    moreover have "s \<noteq> Some 0" using assms(2) Slice by (simp add: zero_step_def)
    ultimately obtain lo hi st where "indices a b s (sh ! nat c) = Inr (lo, hi, st)"
      using indices_ok by blast
    then show ?thesis using Slice False p by simp
  qed
qed (simp_all add: Let_def)

lemma index_loop_wf:
  assumes "list_all (\<lambda>d. 0 \<le> d) sh" "\<not> list_ex zero_step rest" "0 \<le> c"
    and "c + sum_list (map (consumed (int (length sh) - k + 1)) rest) \<le> int (length sh)"
    and "list_ex is_ellipsis rest \<longrightarrow> 0 \<le> int (length sh) - k + 1"
    and "index_loop sh k rest (res, c) = Inl e"
  shows "e = DiscontiguousArrayError (Message ''Step size greater than 1 is not supported'')"
  using assms(2-)
proof (induction rest arbitrary: res c)
  case Nil
  then show ?case by simp
next
  case (Cons x rest)
  let ?f = "int (length sh) - k + 1"
  have nn: "0 \<le> consumed ?f x"
    using Cons.prems(4) by (intro consumed_nonneg) simp
  have w: "0 \<le> sum_list (map (consumed ?f) rest)"
  proof (rule sum_list_nonneg)
    fix y assume "y \<in> set (map (consumed ?f) rest)"
    then obtain z where z: "z \<in> set rest" "y = consumed ?f z" by auto
    moreover have "is_ellipsis z \<longrightarrow> 0 \<le> ?f"
      using Cons.prems(4) z(1) by (auto simp: list_ex_iff)
    ultimately show "0 \<le> y"
      by (simp add: consumed_nonneg)
  qed
  have step: "(\<exists>res'. index_step sh k x (res, c) = Inr (res', c + consumed ?f x))
         \<or> index_step sh k x (res, c)
             = Inl (DiscontiguousArrayError (Message ''Step size greater than 1 is not supported''))"
  proof (rule index_step_wf [where w = "sum_list (map (consumed ?f) rest)"])
    show "list_all (\<lambda>d. 0 \<le> d) sh" by (rule assms(1))
    show "\<not> zero_step x" using Cons.prems(1) by simp
    show "0 \<le> c" by (rule Cons.prems(2))
    show "c + consumed ?f x + sum_list (map (consumed ?f) rest) \<le> int (length sh)"
      using Cons.prems(3) by (simp add: add.assoc)
    show "0 \<le> sum_list (map (consumed ?f) rest)" by (rule w)
    show "is_ellipsis x \<longrightarrow> 0 \<le> ?f" using Cons.prems(4) by simp
  qed
  then show ?case
  proof
    assume "\<exists>res'. index_step sh k x (res, c) = Inr (res', c + consumed ?f x)"
    then obtain res' where r: "index_step sh k x (res, c) = Inr (res', c + consumed ?f x)" ..
    have "\<not> list_ex zero_step rest" using Cons.prems(1) by simp
    moreover have "0 \<le> c + consumed ?f x" using Cons.prems(2) nn by simp
    moreover have "c + consumed ?f x + sum_list (map (consumed ?f) rest) \<le> int (length sh)"
      using Cons.prems(3) by (simp add: add.assoc)
    moreover have "list_ex is_ellipsis rest \<longrightarrow> 0 \<le> ?f" using Cons.prems(4) by simp
    moreover have "index_loop sh k rest (res', c + consumed ?f x) = Inl e"
      using Cons.prems(5) r by simp
    ultimately show ?thesis by (rule Cons.IH)
  next
    assume "index_step sh k x (res, c)
             = Inl (DiscontiguousArrayError (Message ''Step size greater than 1 is not supported''))"
    with Cons.prems(5) show ?thesis by simp
  qed
qed

lemma length_advanced_index_shapes:
  "length (advanced_index_shapes sel) = length (filter is_ndarray sel)"
  by (induction sel rule: advanced_index_shapes.induct) (simp_all add: is_ndarray_def)

lemma broadcast_start_cursor:
  "broadcast_start sel = Inr (r, c) \<Longrightarrow> c = int (length (filter is_ndarray sel))"
  by (auto simp: broadcast_start_def Let_def length_advanced_index_shapes [symmetric]
           split: if_splits sum.splits)

lemma broadcast_start_ok:
  "\<not> isl (broadcast_shapes (advanced_index_shapes sel)) \<Longrightarrow> \<exists>st. broadcast_start sel = Inr st"
  by (auto simp: broadcast_start_def Let_def split: sum.splits)

lemma consumed_total:
  "int (length (filter is_ndarray sel)) + sum_list (map (consumed f) sel)
     = int (length sel) + (f - 1) * int (length (filter is_ellipsis sel))"
proof (induction sel)
  case Nil
  then show ?case by simp
next
  case (Cons x sel)
  then show ?case
    by (cases x) (simp_all add: is_ndarray_def is_ellipsis_def algebra_simps)
qed

lemma wf_index_start:
  assumes "wf_index sh sel"
  shows "int (length (filter is_ndarray sel))
           + sum_list (map (consumed (int (length sh) - int (length sel) + 1)) sel)
         \<le> int (length sh)"
    and "list_ex is_ellipsis sel \<longrightarrow> 0 \<le> int (length sh) - int (length sel) + 1"
proof -
  let ?e = "length (filter is_ellipsis sel)"
  have "?e \<le> 1" and l: "length sel \<le> length sh + ?e"
    using assms by (simp_all add: wf_index_def)
  then have e: "?e = 0 \<or> ?e = 1"
    by linarith
  show "int (length (filter is_ndarray sel))
           + sum_list (map (consumed (int (length sh) - int (length sel) + 1)) sel)
         \<le> int (length sh)"
    using e l by (auto simp: consumed_total)
  have "list_ex is_ellipsis sel \<Longrightarrow> ?e = 1"
    using e by (auto simp: list_ex_iff filter_empty_conv)
  then show "list_ex is_ellipsis sel \<longrightarrow> 0 \<le> int (length sh) - int (length sel) + 1"
    using l by auto
qed

lemma resolver_wf_error:
  assumes "wf_index sh sel" "resulting_shape_from_index sh sel drop_axes pad = Inl e"
  shows "e = DiscontiguousArrayError (Message ''Step size greater than 1 is not supported'')"
proof -
  obtain r c where st: "broadcast_start sel = Inr (r, c)"
    using assms(1) broadcast_start_ok by (fastforce simp: wf_index_def)
  then have c: "c = int (length (filter is_ndarray sel))"
    by (rule broadcast_start_cursor)
  have "index_loop sh (int (length sel)) sel (r, c) = Inl e"
    using assms(2) st by (auto simp: resulting_shape_from_index_def split: sum.splits prod.splits)
  moreover have "list_all (\<lambda>d. 0 \<le> d) sh" "\<not> list_ex zero_step sel"
    using assms(1) by (auto simp: wf_index_def)
  moreover have "0 \<le> c" using c by simp
  ultimately show ?thesis
    using wf_index_start [OF assms(1)] c by (intro index_loop_wf [of sh sel c "int (length sel)" r e]) auto
qed

lemmas resolver_eval =
  resulting_shape_from_index_def broadcast_start_def broadcast_shapes_def py_index_def
  py_slice_def py_slice_from_def py_bound_def indices_def clamp_bound_def step_gt_1_def
  drop_axes_filter_def Let_def

subsection \<open>The step error is raised when the loop reaches the slice\<close>

lemma index_loop_append:
  "index_loop sh k (pre @ rest) st =
     (case index_loop sh k pre st of Inl e \<Rightarrow> Inl e | Inr st' \<Rightarrow> index_loop sh k rest st')"
  by (induction pre arbitrary: st) (auto split: sum.splits)

lemma index_loop_reach:
  assumes "list_ex big_step sel"
  shows "index_loop sh k sel st
           = (case index_loop sh k (takeWhile (\<lambda>x. \<not> big_step x) sel) st of
                Inl e \<Rightarrow> Inl e
              | Inr st' \<Rightarrow>
                  Inl (DiscontiguousArrayError (Message ''Step size greater than 1 is not supported'')))"
proof -
  let ?pre = "takeWhile (\<lambda>x. \<not> big_step x) sel"
  let ?rest = "dropWhile (\<lambda>x. \<not> big_step x) sel"
  have "?rest \<noteq> []"
    using assms by (auto simp: list_ex_iff dropWhile_eq_Nil_conv)
  then obtain x post where r: "?rest = x # post" by (cases ?rest) auto
  then have "big_step x"
    using hd_dropWhile [of "\<lambda>x. \<not> big_step x" sel] by auto
  then have "\<And>st'. index_loop sh k ?rest st'
               = Inl (DiscontiguousArrayError (Message ''Step size greater than 1 is not supported''))"
    using r by (simp add: index_step_big_step)
  moreover have "index_loop sh k sel st = index_loop sh k (?pre @ ?rest) st"
    by simp
  ultimately show ?thesis
    by (simp only: index_loop_append)
qed

lemma resolver_reach:
  assumes "list_ex big_step sel"
  shows "resulting_shape_from_index sh sel drop_axes pad
           = Inl (DiscontiguousArrayError (Message ''Step size greater than 1 is not supported''))
         \<longleftrightarrow> (\<exists>st st'. broadcast_start sel = Inr st
                \<and> index_loop sh (int (length sel)) (takeWhile (\<lambda>x. \<not> big_step x) sel) st = Inr st')"
proof (cases "broadcast_start sel")
  case (Inl e)
  then have "e = ValueError" by (rule broadcast_start_error)
  then show ?thesis using Inl by (simp add: resulting_shape_from_index_def)
next
  case (Inr st)
  let ?pre = "takeWhile (\<lambda>x. \<not> big_step x) sel"
  show ?thesis
  proof (cases "index_loop sh (int (length sel)) ?pre st")
    case (Inl e)
    have "\<not> list_ex big_step ?pre"
      by (auto simp: list_ex_iff dest: set_takeWhileD)
    then have "e \<noteq> DiscontiguousArrayError (Message ''Step size greater than 1 is not supported'')"
      using Inl index_loop_discontiguous by blast
    then show ?thesis
      using Inl Inr index_loop_reach [OF assms, of sh "int (length sel)" st]
      by (simp add: resulting_shape_from_index_def)
  next
    case (Inr st')
    then show ?thesis
      using \<open>broadcast_start sel = Inr st\<close> index_loop_reach [OF assms, of sh "int (length sel)" st]
      by (simp add: resulting_shape_from_index_def)
  qed
qed

text \<open>
  C5. The claim: every selection with a slice whose step is present and greater than 1
  fails with \<^verbatim>\<open>DiscontiguousArrayError\<close>. An earlier selector can raise first: a slice of
  step 0 raises \<^verbatim>\<open>ValueError\<close> in \<^verbatim>\<open>slice.indices\<close>, and a slice met with the cursor
  beyond the last axis raises \<^verbatim>\<open>IndexError\<close>.
\<close>

theorem step_gt_1_counterexample:
  "list_ex big_step [Slice None None (Some 0), Slice None None (Some 2)]
   \<and> resulting_shape_from_index [4, 4]
        [Slice None None (Some 0), Slice None None (Some 2)] [] True = Inl ValueError
   \<and> list_ex big_step [Integer 0, Slice None None None, Slice None None (Some 2)]
   \<and> resulting_shape_from_index [3]
        [Integer 0, Slice None None None, Slice None None (Some 2)] [] True = Inl IndexError"
  by (simp add: big_step_def resolver_eval)

text \<open>
  C5, amended. A selection with a slice whose step is present and greater than 1 never
  yields a shape. It fails with the \<^verbatim>\<open>DiscontiguousArrayError\<close> of the step test exactly
  when the broadcast of the index arrays and the selectors before the first such slice
  raise nothing; so it does on every well-formed index expression. A selection whose
  slices all have the step \<^verbatim>\<open>None\<close>, 1 or less never fails with
  \<^verbatim>\<open>DiscontiguousArrayError\<close>.
\<close>

theorem step_gt_1_is_rejected:
  "(list_ex big_step sel \<longrightarrow> (\<exists>e. resulting_shape_from_index sh sel drop_axes pad = Inl e))
   \<and> (list_ex big_step sel \<longrightarrow>
        (resulting_shape_from_index sh sel drop_axes pad
           = Inl (DiscontiguousArrayError (Message ''Step size greater than 1 is not supported''))
         \<longleftrightarrow> (\<exists>st st'. broadcast_start sel = Inr st
                \<and> index_loop sh (int (length sel)) (takeWhile (\<lambda>x. \<not> big_step x) sel) st
                    = Inr st')))
   \<and> (list_ex big_step sel \<and> wf_index sh sel \<longrightarrow>
        resulting_shape_from_index sh sel drop_axes pad
          = Inl (DiscontiguousArrayError (Message ''Step size greater than 1 is not supported'')))
   \<and> (\<not> list_ex big_step sel \<longrightarrow>
        (\<forall>m. resulting_shape_from_index sh sel drop_axes pad \<noteq> Inl (DiscontiguousArrayError m)))"
proof (intro conjI impI allI)
  assume "list_ex big_step sel"
  then show "\<exists>e. resulting_shape_from_index sh sel drop_axes pad = Inl e"
    by (rule resolver_big_step_fails)
next
  assume "list_ex big_step sel"
  then show "resulting_shape_from_index sh sel drop_axes pad
           = Inl (DiscontiguousArrayError (Message ''Step size greater than 1 is not supported''))
         \<longleftrightarrow> (\<exists>st st'. broadcast_start sel = Inr st
                \<and> index_loop sh (int (length sel)) (takeWhile (\<lambda>x. \<not> big_step x) sel) st
                    = Inr st')"
    by (rule resolver_reach)
next
  assume a: "list_ex big_step sel \<and> wf_index sh sel"
  then obtain e where "resulting_shape_from_index sh sel drop_axes pad = Inl e"
    using resolver_big_step_fails by blast
  then show "resulting_shape_from_index sh sel drop_axes pad
               = Inl (DiscontiguousArrayError (Message ''Step size greater than 1 is not supported''))"
    using a resolver_wf_error by blast
next
  fix m
  assume "\<not> list_ex big_step sel"
  then show "resulting_shape_from_index sh sel drop_axes pad \<noteq> Inl (DiscontiguousArrayError m)"
    using resolver_discontiguous by blast
qed

theorem step_gt_1_is_rejected_witness:
  "list_ex big_step [Slice (Some 0) (Some 2) None, Slice (Some 0) (Some 4) (Some 2)]
   \<and> wf_index [4, 4] [Slice (Some 0) (Some 2) None, Slice (Some 0) (Some 4) (Some 2)]
   \<and> resulting_shape_from_index [4, 4]
        [Slice (Some 0) (Some 2) None, Slice (Some 0) (Some 4) (Some 2)] [] True
      = Inl (DiscontiguousArrayError (Message ''Step size greater than 1 is not supported''))
   \<and> \<not> list_ex big_step [Slice (Some 0) (Some 2) None, Slice (Some 0) (Some 4) (Some 1)]
   \<and> resulting_shape_from_index [4, 4]
        [Slice (Some 0) (Some 2) None, Slice (Some 0) (Some 4) (Some 1)] [] True
      \<noteq> Inl (DiscontiguousArrayError (Message ''Step size greater than 1 is not supported''))"
proof -
  have b: "list_ex big_step [Slice (Some 0) (Some 2) None, Slice (Some 0) (Some 4) (Some 2)]"
    by (simp add: big_step_def step_gt_1_def)
  have w: "wf_index [4, 4] [Slice (Some 0) (Some 2) None, Slice (Some 0) (Some 4) (Some 2)]"
    by (simp add: wf_index_def is_ellipsis_def zero_step_def broadcast_shapes_def)
  have n: "\<not> list_ex big_step [Slice (Some 0) (Some 2) None, Slice (Some 0) (Some 4) (Some 1)]"
    by (simp add: big_step_def step_gt_1_def)
  show ?thesis
    using b w n
      step_gt_1_is_rejected [of "[Slice (Some 0) (Some 2) None, Slice (Some 0) (Some 4) (Some 2)]"
        "[4, 4]" "[]" True]
      step_gt_1_is_rejected [of "[Slice (Some 0) (Some 2) None, Slice (Some 0) (Some 4) (Some 1)]"
        "[4, 4]" "[]" True]
    by blast
qed

text \<open>
  C7. The shape for a given \<^verbatim>\<open>drop_axes\<close> is the shape for the empty \<^verbatim>\<open>drop_axes\<close>, that is
  the assembled and padded result, without the positions listed in \<^verbatim>\<open>drop_axes\<close> and in
  the same order (\<open>nths\<close> keeps the elements at the positions of a set); an error is the
  same error. With \<^verbatim>\<open>drop_axes = (0,)\<close> the shape \<open>(3, 5)\<close> becomes \<open>(5,)\<close>.
\<close>

theorem drop_axes_removed_from_result:
  "(resulting_shape_from_index sh sel [] pad = Inr r \<longrightarrow>
      resulting_shape_from_index sh sel drop_axes pad = Inr (nths r {i. int i \<notin> set drop_axes}))
   \<and> (resulting_shape_from_index sh sel [] pad = Inl e \<longrightarrow>
        resulting_shape_from_index sh sel drop_axes pad = Inl e)
   \<and> (resulting_shape_from_index sh sel [] pad = Inr [3, 5] \<longrightarrow>
        resulting_shape_from_index sh sel [0] pad = Inr [5])"
proof (intro conjI impI)
  assume "resulting_shape_from_index sh sel [] pad = Inr r"
  then show "resulting_shape_from_index sh sel drop_axes pad
               = Inr (nths r {i. int i \<notin> set drop_axes})"
    using resolver_drop [of sh sel drop_axes pad] by (simp add: drop_axes_filter_nths)
next
  assume "resulting_shape_from_index sh sel [] pad = Inl e"
  then show "resulting_shape_from_index sh sel drop_axes pad = Inl e"
    using resolver_drop [of sh sel drop_axes pad] by simp
next
  assume "resulting_shape_from_index sh sel [] pad = Inr [3, 5]"
  then show "resulting_shape_from_index sh sel [0] pad = Inr [5]"
    using resolver_drop [of sh sel "[0]" pad] by (simp add: drop_axes_filter_def)
qed

theorem drop_axes_removed_from_result_witness:
  "resulting_shape_from_index [3, 4, 5] [Slice None None None, Integer 1] [] True = Inr [3, 5]
   \<and> resulting_shape_from_index [3, 4, 5] [Slice None None None, Integer 1] [0] True = Inr [5]
   \<and> resulting_shape_from_index [3, 4, 5] [Slice None None None, Integer 1] [1, 7] True = Inr [3]
   \<and> resulting_shape_from_index [3] [Integer 0, Slice None None None] [] True = Inl IndexError
   \<and> resulting_shape_from_index [3] [Integer 0, Slice None None None] [0] True = Inl IndexError"
proof -
  have a: "resulting_shape_from_index [3, 4, 5] [Slice None None None, Integer 1] [] True
             = Inr [3, 5]"
    by (simp add: resolver_eval)
  have b: "resulting_shape_from_index [3] [Integer 0, Slice None None None] [] True
             = Inl IndexError"
    by (simp add: resolver_eval)
  have c: "nths [3, 5 :: int] {i. int i \<notin> set [1, 7]} = [3]"
    by (simp add: nths_Cons)
  show ?thesis
    using a b c
      drop_axes_removed_from_result
        [of "[3, 4, 5]" "[Slice None None None, Integer 1]" True "[3, 5]" "[1, 7]"]
      drop_axes_removed_from_result
        [of "[3, 4, 5]" "[Slice None None None, Integer 1]" True "[3, 5]" "[0]"]
      drop_axes_removed_from_result
        [of "[3]" "[Integer 0, Slice None None None]" True _ "[0]" IndexError]
    by simp
qed


lemma negative_not_big: "negative_step x \<Longrightarrow> \<not> big_step x"
  by (auto simp: negative_step_def big_step_def step_gt_1_def split: selector.splits option.splits)

lemma not_slice_not_big: "\<not> is_slice x \<Longrightarrow> \<not> big_step x"
  by (auto simp: is_slice_def big_step_def split: selector.splits)

lemma single_slice_shape:
  assumes "indices a b s n = Inr (lo, hi, st)" "\<not> step_gt_1 s"
  shows "resulting_shape_from_index [n] [Slice a b s] [] pad = Inr [hi - lo]"
  using assms
  by (simp add: resulting_shape_from_index_def broadcast_start_def py_index_def
        drop_axes_filter_def)

text \<open>
  C9. A slice with a negative step passes the step test: the round of the loop appends
  \<open>stop - start\<close> of \<^verbatim>\<open>indices\<close> and moves the cursor; alone on an axis of size \<open>n\<close> it
  resolves to that one size; a selection whose slices all have a negative step never fails
  with \<^verbatim>\<open>DiscontiguousArrayError\<close>. The reversed full slice of an axis of size 4 resolves
  to \<open>- 4\<close>.
\<close>

theorem negative_step_is_not_rejected:
  "(s < 0 \<longrightarrow>
      index_step sh k (Slice a b (Some s)) (res, c) =
        (case py_index sh c of
           Inl e \<Rightarrow> Inl e
         | Inr len \<Rightarrow>
             (case indices a b (Some s) len of
                Inl e \<Rightarrow> Inl e
              | Inr (lo, hi, _) \<Rightarrow> Inr (res @ [hi - lo], c + 1))))
   \<and> (s < 0 \<and> 0 \<le> n \<longrightarrow>
        (\<exists>lo hi. indices a b (Some s) n = Inr (lo, hi, s)
           \<and> resulting_shape_from_index [n] [Slice a b (Some s)] [] pad = Inr [hi - lo]))
   \<and> (list_all (\<lambda>x. is_slice x \<longrightarrow> negative_step x) sel \<longrightarrow>
        (\<forall>m. resulting_shape_from_index sh sel drop_axes pad \<noteq> Inl (DiscontiguousArrayError m)))
   \<and> resulting_shape_from_index [4] [Slice None None (Some (- 1))] [] pad = Inr [- 4]"
proof (intro conjI impI allI)
  assume "s < 0"
  then show "index_step sh k (Slice a b (Some s)) (res, c) =
        (case py_index sh c of
           Inl e \<Rightarrow> Inl e
         | Inr len \<Rightarrow>
             (case indices a b (Some s) len of
                Inl e \<Rightarrow> Inl e
              | Inr (lo, hi, _) \<Rightarrow> Inr (res @ [hi - lo], c + 1)))"
    by (simp add: step_gt_1_def)
next
  assume h: "s < 0 \<and> 0 \<le> n"
  then obtain lo hi st where i: "indices a b (Some s) n = Inr (lo, hi, st)"
    using indices_ok [of n "Some s" a b] by auto
  then have "st = s"
    by (auto simp: indices_def Let_def split: if_splits)
  moreover have "\<not> step_gt_1 (Some s)"
    using h by (simp add: step_gt_1_def)
  ultimately show "\<exists>lo hi. indices a b (Some s) n = Inr (lo, hi, s)
           \<and> resulting_shape_from_index [n] [Slice a b (Some s)] [] pad = Inr [hi - lo]"
    using i single_slice_shape by blast
next
  fix m
  assume "list_all (\<lambda>x. is_slice x \<longrightarrow> negative_step x) sel"
  then have "\<not> list_ex big_step sel"
    using negative_not_big not_slice_not_big by (auto simp: list_all_iff list_ex_iff)
  then show "resulting_shape_from_index sh sel drop_axes pad \<noteq> Inl (DiscontiguousArrayError m)"
    using resolver_discontiguous by blast
next
  have "indices None None (Some (- 1)) 4 = Inr (3, - 1, - 1)"
    by (simp add: indices_def Let_def)
  then show "resulting_shape_from_index [4] [Slice None None (Some (- 1))] [] pad = Inr [- 4]"
    using single_slice_shape [of None None "Some (- 1)" 4 3 "- 1" "- 1" pad]
    by (simp add: step_gt_1_def)
qed

theorem negative_step_is_not_rejected_witness:
  "index_step [4, 6] 2 (Slice (Some 5) (Some 1) (Some (- 2))) ([4], 1) = Inr ([4, - 4], 2)
   \<and> resulting_shape_from_index [6] [Slice (Some 5) (Some 1) (Some (- 2))] [] True = Inr [- 4]
   \<and> resulting_shape_from_index [4, 6]
        [Slice None None (Some (- 1)), Integer 0] [0] False \<noteq> Inl (DiscontiguousArrayError (Diff []))"
proof -
  have i: "indices (Some 5) (Some 1) (Some (- 2)) 6 = Inr (5, 1, - 2)"
    by (simp add: indices_def clamp_bound_def Let_def)
  have p: "py_index [4, 6 :: int] 1 = Inr 6"
    by (simp add: py_index_def)
  have l: "list_all (\<lambda>x. is_slice x \<longrightarrow> negative_step x) [Slice None None (Some (- 1)), Integer 0]"
    by (simp add: is_slice_def negative_step_def)
  show ?thesis
    using i p l
      negative_step_is_not_rejected
        [where s = "- 2" and sh = "[4, 6]" and k = 2 and a = "Some 5" and b = "Some 1"
           and res = "[4]" and c = 1 and n = 6 and pad = True
           and sel = "[Slice None None (Some (- 1)), Integer 0]" and drop_axes = "[0]"]
      negative_step_is_not_rejected
        [where s = "- 2" and sh = "[4, 6]" and k = 2 and a = "Some 5" and b = "Some 1"
           and res = "[4]" and c = 1 and n = 6 and pad = False
           and sel = "[Slice None None (Some (- 1)), Integer 0]" and drop_axes = "[0]"]
    by auto
qed


section \<open>Properties of the chunk batch builder\<close>

lemma index_step_not_collapsed: "index_step sh k x st \<noteq> Inl CollapsedDimensionError"
  by (cases x; cases st)
     (auto simp: Let_def split: if_splits sum.splits prod.splits
           dest: py_index_error indices_error)

lemma index_loop_not_collapsed: "index_loop sh k sel st \<noteq> Inl CollapsedDimensionError"
  by (induction sel arbitrary: st) (auto split: sum.splits simp: index_step_not_collapsed)

lemma resolver_not_collapsed:
  "resulting_shape_from_index sh sel drop_axes pad \<noteq> Inl CollapsedDimensionError"
  by (auto simp: resulting_shape_from_index_def index_loop_not_collapsed
           split: sum.splits prod.splits dest: broadcast_start_error)

lemma get_shape_not_collapsed:
  "get_shape_for_selector t sh drop_axes pad \<noteq> Inl CollapsedDimensionError"
  by (cases t) (simp_all add: resolver_not_collapsed)

lemma slice_of_dim_not_collapsed: "slice_of_dim x \<noteq> Inl CollapsedDimensionError"
  by (cases x) (simp_all add: Let_def)

lemma make_slices_not_collapsed: "make_slices ss \<noteq> Inl CollapsedDimensionError"
  by (induction ss) (auto split: sum.splits simp: slice_of_dim_not_collapsed)

lemma slices_or_reduce_not_collapsed: "slices_or_reduce ss \<noteq> Inl CollapsedDimensionError"
  using make_slices_not_collapsed [of ss]
  by (auto simp: slices_or_reduce_def make_slice_selection_def split: sum.splits)

lemma reducer_not_collapsed:
  "selector_tuple_to_slice_selection t \<noteq> Inl CollapsedDimensionError"
  by (cases t)
     (auto simp: slices_or_reduce_not_collapsed iter_ndarray_def Let_def
           split: sum.splits list.splits)

lemma build_entries_not_collapsed: "fst (build_entries batch) \<noteq> Inl CollapsedDimensionError"
proof (induction batch)
  case Nil
  then show ?case by simp
next
  case (Cons x batch)
  obtain g cs ch out where x: "x = (g, cs, ch, out)" by (cases x) auto
  show ?case
    using Cons reducer_not_collapsed [of out] reducer_not_collapsed [of ch]
    by (auto simp: x Let_def split: sum.splits prod.splits)
qed

lemma check_batch_Cons:
  "check_batch (x # rest) drop_axes = Inl CollapsedDimensionError
     \<longleftrightarrow> rank_differs drop_axes x
         \<or> (entry_ok drop_axes x \<and> check_batch rest drop_axes = Inl CollapsedDimensionError)"
proof -
  obtain g cs ch out where x: "x = (g, cs, ch, out)" by (cases x) auto
  show ?thesis
    using get_shape_not_collapsed [of out "shape cs" "[]" False]
          get_shape_not_collapsed [of ch "shape cs" drop_axes True]
    by (auto simp: x rank_differs_def entry_ok_def entry_resolves_def split: sum.splits)
qed

lemma check_batch_collapsed:
  "check_batch batch drop_axes = Inl CollapsedDimensionError
     \<longleftrightarrow> (\<exists>pre it post. batch = pre @ it # post
            \<and> list_all (entry_ok drop_axes) pre \<and> rank_differs drop_axes it)"
proof (induction batch)
  case Nil
  then show ?case by simp
next
  case (Cons x batch)
  show ?case
  proof
    assume "check_batch (x # batch) drop_axes = Inl CollapsedDimensionError"
    then consider "rank_differs drop_axes x"
      | "entry_ok drop_axes x" "check_batch batch drop_axes = Inl CollapsedDimensionError"
      using check_batch_Cons by blast
    then show "\<exists>pre it post. x # batch = pre @ it # post
            \<and> list_all (entry_ok drop_axes) pre \<and> rank_differs drop_axes it"
    proof cases
      case 1
      then have "x # batch = [] @ x # batch \<and> list_all (entry_ok drop_axes) [] \<and> rank_differs drop_axes x"
        by simp
      then show ?thesis by blast
    next
      case 2
      then obtain pre it post where "batch = pre @ it # post"
          "list_all (entry_ok drop_axes) pre" "rank_differs drop_axes it"
        using Cons.IH by blast
      then have "x # batch = (x # pre) @ it # post \<and> list_all (entry_ok drop_axes) (x # pre)
                   \<and> rank_differs drop_axes it"
        using 2(1) by simp
      then show ?thesis by blast
    qed
  next
    assume "\<exists>pre it post. x # batch = pre @ it # post
            \<and> list_all (entry_ok drop_axes) pre \<and> rank_differs drop_axes it"
    then obtain pre it post where p: "x # batch = pre @ it # post"
        "list_all (entry_ok drop_axes) pre" "rank_differs drop_axes it"
      by blast
    show "check_batch (x # batch) drop_axes = Inl CollapsedDimensionError"
    proof (cases pre)
      case Nil
      then show ?thesis using p check_batch_Cons by auto
    next
      case (Cons y pre')
      then have "batch = pre' @ it # post" "entry_ok drop_axes x" "list_all (entry_ok drop_axes) pre'"
        using p by auto
      then show ?thesis
        using p(3) Cons.IH check_batch_Cons by blast
    qed
  qed
qed

lemma check_batch_collapsed_resolving:
  assumes "list_all (entry_resolves drop_axes) batch"
  shows "check_batch batch drop_axes = Inl CollapsedDimensionError
           \<longleftrightarrow> list_ex (rank_differs drop_axes) batch"
  using assms
proof (induction batch)
  case Nil
  then show ?case by simp
next
  case (Cons x batch)
  then show ?case
    using check_batch_Cons [of x batch drop_axes] by (auto simp: entry_ok_def)
qed

lemma builder_collapsed:
  "fst (make_chunk_info_for_rust_with_indices batch drop_axes) = Inl CollapsedDimensionError
     \<longleftrightarrow> check_batch batch drop_axes = Inl CollapsedDimensionError"
  using build_entries_not_collapsed [of batch]
  by (auto simp: make_chunk_info_for_rust_with_indices_def split: sum.splits)

lemma builder_collapsed_trace:
  "fst (make_chunk_info_for_rust_with_indices batch drop_axes) = Inl CollapsedDimensionError
     \<Longrightarrow> snd (make_chunk_info_for_rust_with_indices batch drop_axes) = []"
  using build_entries_not_collapsed [of batch]
  by (auto simp: make_chunk_info_for_rust_with_indices_def split: sum.splits)


text \<open>
  C4. The claim: the builder raises \<^verbatim>\<open>CollapsedDimensionError\<close> if and only if the two
  resolved shapes differ in rank for some item. In the batch below the shapes of the
  second item differ in rank, but the chunk selection of the first item has a slice of
  step 2: resolving it raises \<^verbatim>\<open>DiscontiguousArrayError\<close>, which leaves the first loop
  before the second item is looked at.
\<close>

theorem collapsed_dimension_counterexample:
  "list_ex (rank_differs [])
     [(''c/0/0'', \<lparr>shape = [4, 4], dtype = ''int16'', fill_value = [255, 127]\<rparr>,
       Tuple [Slice (Some 0) (Some 4) (Some 2), Slice (Some 0) (Some 2) None],
       Tuple [Slice (Some 0) (Some 2) None, Slice (Some 0) (Some 2) None]),
      (''c/0/1'', \<lparr>shape = [4, 4], dtype = ''int16'', fill_value = [255, 127]\<rparr>,
       Tuple [Integer 0, Slice (Some 0) (Some 2) None],
       Tuple [Slice (Some 0) (Some 2) None, Slice (Some 0) (Some 2) None])]
   \<and> make_chunk_info_for_rust_with_indices
     [(''c/0/0'', \<lparr>shape = [4, 4], dtype = ''int16'', fill_value = [255, 127]\<rparr>,
       Tuple [Slice (Some 0) (Some 4) (Some 2), Slice (Some 0) (Some 2) None],
       Tuple [Slice (Some 0) (Some 2) None, Slice (Some 0) (Some 2) None]),
      (''c/0/1'', \<lparr>shape = [4, 4], dtype = ''int16'', fill_value = [255, 127]\<rparr>,
       Tuple [Integer 0, Slice (Some 0) (Some 2) None],
       Tuple [Slice (Some 0) (Some 2) None, Slice (Some 0) (Some 2) None])] []
     = (Inl (DiscontiguousArrayError (Message ''Step size greater than 1 is not supported'')), [])"
  by (simp add: rank_differs_def make_chunk_info_for_rust_with_indices_def resolver_eval)

text \<open>
  C4, amended. For each item the first loop resolves the shape of the output selection
  with \<^verbatim>\<open>pad=False\<close> and no \<^verbatim>\<open>drop_axes\<close> and the shape of the chunk selection with
  \<^verbatim>\<open>pad=True\<close> and the given \<^verbatim>\<open>drop_axes\<close>, both against the chunk shape. The builder
  raises \<^verbatim>\<open>CollapsedDimensionError\<close> exactly when the loop reaches an item whose two
  resolved shapes differ in rank, the items before it having resolved with equal ranks;
  when every item resolves, exactly when some item's shapes differ in rank. When it raises,
  no descriptor has been produced.
\<close>

theorem collapsed_dimension_iff:
  "(fst (make_chunk_info_for_rust_with_indices [(g, cs, ch, out)] drop_axes)
      = Inl CollapsedDimensionError
    \<longleftrightarrow> (\<exists>shape_out_selection shape_chunk_selection.
           get_shape_for_selector out (shape cs) [] False = Inr shape_out_selection
           \<and> get_shape_for_selector ch (shape cs) drop_axes True = Inr shape_chunk_selection
           \<and> length shape_chunk_selection \<noteq> length shape_out_selection))
   \<and> (fst (make_chunk_info_for_rust_with_indices batch drop_axes) = Inl CollapsedDimensionError
        \<longleftrightarrow> (\<exists>pre it post. batch = pre @ it # post
               \<and> list_all (entry_ok drop_axes) pre \<and> rank_differs drop_axes it))
   \<and> (list_all (entry_resolves drop_axes) batch \<longrightarrow>
        (fst (make_chunk_info_for_rust_with_indices batch drop_axes) = Inl CollapsedDimensionError
         \<longleftrightarrow> list_ex (rank_differs drop_axes) batch))
   \<and> (fst (make_chunk_info_for_rust_with_indices batch drop_axes) = Inl CollapsedDimensionError
        \<longrightarrow> snd (make_chunk_info_for_rust_with_indices batch drop_axes) = [])"
proof (intro conjI impI)
  have "check_batch [(g, cs, ch, out)] drop_axes = Inl CollapsedDimensionError
          \<longleftrightarrow> rank_differs drop_axes (g, cs, ch, out)"
    using check_batch_Cons [of "(g, cs, ch, out)" "[]" drop_axes] by simp
  then show "fst (make_chunk_info_for_rust_with_indices [(g, cs, ch, out)] drop_axes)
      = Inl CollapsedDimensionError
    \<longleftrightarrow> (\<exists>shape_out_selection shape_chunk_selection.
           get_shape_for_selector out (shape cs) [] False = Inr shape_out_selection
           \<and> get_shape_for_selector ch (shape cs) drop_axes True = Inr shape_chunk_selection
           \<and> length shape_chunk_selection \<noteq> length shape_out_selection)"
    unfolding builder_collapsed by (auto simp: rank_differs_def split: sum.splits)
next
  show "fst (make_chunk_info_for_rust_with_indices batch drop_axes) = Inl CollapsedDimensionError
        \<longleftrightarrow> (\<exists>pre it post. batch = pre @ it # post
               \<and> list_all (entry_ok drop_axes) pre \<and> rank_differs drop_axes it)"
    unfolding builder_collapsed by (rule check_batch_collapsed)
next
  assume "list_all (entry_resolves drop_axes) batch"
  then show "fst (make_chunk_info_for_rust_with_indices batch drop_axes) = Inl CollapsedDimensionError
         \<longleftrightarrow> list_ex (rank_differs drop_axes) batch"
    unfolding builder_collapsed by (rule check_batch_collapsed_resolving)
next
  assume "fst (make_chunk_info_for_rust_with_indices batch drop_axes) = Inl CollapsedDimensionError"
  then show "snd (make_chunk_info_for_rust_with_indices batch drop_axes) = []"
    by (rule builder_collapsed_trace)
qed

theorem collapsed_dimension_iff_witness:
  "list_all (entry_resolves [])
     [(''c/0/0'', \<lparr>shape = [2, 2], dtype = ''int16'', fill_value = [255, 127]\<rparr>,
       Tuple [Slice (Some 0) (Some 2) None, Slice (Some 0) (Some 2) None],
       Tuple [Slice (Some 0) (Some 2) None, Slice (Some 0) (Some 2) None]),
      (''c/0/1'', \<lparr>shape = [2, 2], dtype = ''int16'', fill_value = [255, 127]\<rparr>,
       Tuple [Integer 0, Slice (Some 0) (Some 2) None],
       Tuple [Slice (Some 0) (Some 2) None, Slice (Some 0) (Some 2) None])]
   \<and> make_chunk_info_for_rust_with_indices
     [(''c/0/0'', \<lparr>shape = [2, 2], dtype = ''int16'', fill_value = [255, 127]\<rparr>,
       Tuple [Slice (Some 0) (Some 2) None, Slice (Some 0) (Some 2) None],
       Tuple [Slice (Some 0) (Some 2) None, Slice (Some 0) (Some 2) None]),
      (''c/0/1'', \<lparr>shape = [2, 2], dtype = ''int16'', fill_value = [255, 127]\<rparr>,
       Tuple [Integer 0, Slice (Some 0) (Some 2) None],
       Tuple [Slice (Some 0) (Some 2) None, Slice (Some 0) (Some 2) None])] []
     = (Inl CollapsedDimensionError, [])
   \<and> fst (make_chunk_info_for_rust_with_indices
     [(''c/0/0'', \<lparr>shape = [2, 2], dtype = ''int16'', fill_value = [255, 127]\<rparr>,
       Tuple [Slice (Some 0) (Some 2) None, Slice (Some 0) (Some 2) None],
       Tuple [Slice (Some 0) (Some 2) None, Slice (Some 0) (Some 2) None])] [])
     \<noteq> Inl CollapsedDimensionError"
proof -
  let ?spec = "\<lparr>shape = [2, 2], dtype = ''int16'', fill_value = [255, 127]\<rparr>"
  let ?full = "Tuple [Slice (Some 0) (Some 2) None, Slice (Some 0) (Some 2) None]"
  let ?good = "(''c/0/0'', ?spec, ?full, ?full)"
  let ?bad = "(''c/0/1'', ?spec, Tuple [Integer 0, Slice (Some 0) (Some 2) None], ?full)"
  have r: "list_all (entry_resolves []) [?good, ?bad]"
    by (simp add: entry_resolves_def resolver_eval)
  have r1: "list_all (entry_resolves []) [?good]"
    by (simp add: entry_resolves_def resolver_eval)
  have d: "list_ex (rank_differs []) [?good, ?bad]"
    by (simp add: rank_differs_def resolver_eval)
  have n: "\<not> list_ex (rank_differs []) [?good]"
    by (simp add: rank_differs_def resolver_eval)
  have "fst (make_chunk_info_for_rust_with_indices [?good, ?bad] []) = Inl CollapsedDimensionError"
    using r d collapsed_dimension_iff [where batch = "[?good, ?bad]" and drop_axes = "[]"]
    by blast
  moreover from this
  have "snd (make_chunk_info_for_rust_with_indices [?good, ?bad] []) = []"
    using collapsed_dimension_iff [where batch = "[?good, ?bad]" and drop_axes = "[]"]
    by blast
  ultimately have "make_chunk_info_for_rust_with_indices [?good, ?bad] []
                     = (Inl CollapsedDimensionError, [])"
    by (simp add: prod_eq_iff)
  moreover have "fst (make_chunk_info_for_rust_with_indices [?good] []) \<noteq> Inl CollapsedDimensionError"
    using r1 n collapsed_dimension_iff [where batch = "[?good]" and drop_axes = "[]"]
    by blast
  ultimately show ?thesis
    using r by blast
qed

section \<open>The shape resolver against basic indexing\<close>











end
